theory Spec2Isabelle
  imports Main "HOL-Library.Word" "HOL-Library.Sublist"
begin

unbundle bit_operations_syntax

section \<open>Data model\<close>

text \<open>
  \<open>DWORD_PTR\<close> is the pointer-sized unsigned integer of the platform (32 or 64 bits).
  It is modelled as a word of any length \<open>'w\<close>, so that every theorem holds for both.
\<close>

type_synonym 'w DWORD_PTR = "'w word"

text \<open>The two levels of \<open>LogLevel\<close> that the plugin writes at.\<close>

datatype LogLevel = Info | Error

text \<open>
  C++ exceptions as values. \<open>ResultException what\<close> is a \<open>wil::ResultException\<close> whose
  \<open>what()\<close> is the text \<open>what\<close>; \<open>OtherException what\<close> is an exception of any class that
  does not derive from it.
\<close>

datatype exn = ResultException string | OtherException string

text \<open>
  The calls that cross the boundary to the host and to the operating system, in the order
  in which a run makes them. \<open>'m\<close> is the type of affinity masks.
\<close>

datatype 'm call =
    CallIsSwitchPresent string bool
  | CallGetProcessAffinityMask
  | CallSetProcessAffinityMask 'm

text \<open>
  The collaborators of the plugin, as parameters of a run.
  \<^item> \<open>IsSwitchPresent name caseSensitive\<close> is the host's command line
    (\<open>cIGZCmdLine::IsSwitchPresent\<close>): \<open>Some v\<close> when the switch is present, \<open>v\<close> being the
    text it stores into its out-parameter, and \<open>None\<close> when it is absent.
  \<^item> \<open>GetProcessAffinityMask\<close> is what the Win32 call of that name reports: \<open>Inr
    (processMask, systemMask)\<close> when it returns \<open>TRUE\<close>, and \<open>Inl what\<close> when it returns
    \<open>FALSE\<close>, where \<open>what\<close> is the diagnostic text of the exception that
    \<open>THROW_IF_WIN32_BOOL_FALSE\<close> builds from the last error.
  \<^item> \<open>SetProcessAffinityMask mask\<close> likewise: \<open>None\<close> for \<open>TRUE\<close>, \<open>Some what\<close> for
    \<open>FALSE\<close>.
  \<^item> \<open>LogSink level text\<close> is the log sink behind the \<open>Logger\<close>: \<open>None\<close> when it accepts
    the line, \<open>Some e\<close> when writing the line raises the exception \<open>e\<close>.
\<close>

record 'm env =
  IsSwitchPresent :: "string \<Rightarrow> bool \<Rightarrow> string option"
  GetProcessAffinityMask :: "string + ('m \<times> 'm)"
  SetProcessAffinityMask :: "'m \<Rightarrow> string option"
  LogSink :: "LogLevel \<Rightarrow> string \<Rightarrow> exn option"

text \<open>
  The observable state of a run: the boundary calls made so far and the lines that the log
  sink has accepted so far, both oldest first.
\<close>

record 'm state =
  calls :: "'m call list"
  logged :: "(LogLevel \<times> string) list"

section \<open>Selection of the lowest set bit\<close>

text \<open>
  \<^verbatim>\<open>return static_cast<DWORD_PTR>(static_cast<uintptr_t>(value) & -static_cast<intptr_t>(value));\<close>

  The cast to \<open>intptr_t\<close> reads the word as two's complement (\<open>sint\<close>), the negation is
  taken there, and the bitwise and converts the negated value back to the unsigned type
  (\<open>word_of_int\<close>, which reduces modulo \<open>2 ^ w\<close>). At the value whose only set bit is the
  topmost one the negation leaves the range of \<open>intptr_t\<close>; the target compilers wrap there,
  which is what \<open>word_of_int\<close> computes.
\<close>

definition GetLowestSetBitMask :: "'w::len DWORD_PTR \<Rightarrow> 'w DWORD_PTR" where
  "GetLowestSetBitMask val = val AND word_of_int (- sint val)"

section \<open>The logger\<close>

text \<open>
  The expansion of a \<open>printf\<close> format whose only conversion is \<open>%s\<close>, as the two format
  strings of the plugin are: each \<open>%s\<close> is replaced by the argument, every other character
  is copied. The argument is the text of a C string (\<open>ToChar()\<close>, \<open>what()\<close>).
\<close>

fun format_s :: "string \<Rightarrow> string \<Rightarrow> string" where
  "format_s (c # d # cs) arg =
     (if c = CHR ''%'' \<and> d = CHR ''s'' then arg @ format_s cs arg
      else c # format_s (d # cs) arg)"
| "format_s cs arg = cs"

text \<open>
  Modelled from the spec: the class \<open>Logger\<close> (\<open>Logger.h\<close>), of which the sources hold the
  calls only. The log sink accepts leveled text lines: \<open>WriteLine\<close> hands one line to the
  sink, which appends it to the log, or raises. \<open>WriteLineFormatted\<close> expands the format
  first.
\<close>

definition WriteLine ::
  "'m env \<Rightarrow> LogLevel \<Rightarrow> string \<Rightarrow> 'm state \<Rightarrow> (exn + unit) \<times> 'm state" where
  "WriteLine env level message s =
     (case LogSink env level message of
        Some e \<Rightarrow> (Inl e, s)
      | None \<Rightarrow> (Inr (), s\<lparr>logged := logged s @ [(level, message)]\<rparr>))"

definition WriteLineFormatted ::
  "'m env \<Rightarrow> LogLevel \<Rightarrow> string \<Rightarrow> string \<Rightarrow> 'm state \<Rightarrow> (exn + unit) \<times> 'm state" where
  "WriteLineFormatted env level format arg s = WriteLine env level (format_s format arg) s"

text \<open>The log sink of the interface: it accepts every line.\<close>

definition LogSinkAccepts :: "'m env \<Rightarrow> bool" where
  "LogSinkAccepts env \<longleftrightarrow> (\<forall>level message. LogSink env level message = None)"

section \<open>Configuring the process for one CPU\<close>

text \<open>
  The body of the \<open>try\<close> block of \<open>ConfigureForSingleCPU\<close>. Each
  \<open>THROW_IF_WIN32_BOOL_FALSE\<close> leaves the block with a \<open>ResultException\<close> when the call
  returned \<open>FALSE\<close>. The mask is computed from the system mask; the process mask is read
  and not used.
\<close>

definition ConfigureForSingleCPU_try ::
  "('w::len) DWORD_PTR env \<Rightarrow> 'w DWORD_PTR state \<Rightarrow> (exn + unit) \<times> 'w DWORD_PTR state" where
  "ConfigureForSingleCPU_try env s =
     (let s1 = s\<lparr>calls := calls s @ [CallGetProcessAffinityMask]\<rparr> in
      case GetProcessAffinityMask env of
        Inl what \<Rightarrow> (Inl (ResultException what), s1)
      | Inr (processAffinityMask, systemAffinityMask) \<Rightarrow>
          (let firstLogicalProcessor = GetLowestSetBitMask systemAffinityMask;
               s2 = s1\<lparr>calls := calls s1 @ [CallSetProcessAffinityMask firstLogicalProcessor]\<rparr> in
           case SetProcessAffinityMask env firstLogicalProcessor of
             Some what \<Rightarrow> (Inl (ResultException what), s2)
           | None \<Rightarrow> WriteLine env Info ''Configured the game to use 1 CPU core.'' s2))"

text \<open>
  \<open>ConfigureForSingleCPU\<close>: the \<open>try\<close> block under its handler
  \<open>catch (const wil::ResultException& e)\<close>, which writes the Error line. An exception of
  another class passes through, as does one that the handler's own write raises.
\<close>

definition ConfigureForSingleCPU ::
  "('w::len) DWORD_PTR env \<Rightarrow> 'w DWORD_PTR state \<Rightarrow> (exn + unit) \<times> 'w DWORD_PTR state" where
  "ConfigureForSingleCPU env s =
     (case ConfigureForSingleCPU_try env s of
        (Inl (ResultException what), s') \<Rightarrow>
          WriteLineFormatted env Error
            ''An OS error occurred when configuring the game to use 1 CPU: %s.'' what s'
      | (Inl (OtherException what), s') \<Rightarrow> (Inl (OtherException what), s')
      | (Inr u, s') \<Rightarrow> (Inr u, s'))"

section \<open>The startup hook\<close>

text \<open>
  \<open>SingleCPUDllDirector::OnStart\<close>. It asks the command line for the switch \<open>CPUCount\<close>
  (case-sensitive), writes the skip line when the switch is present and configures the
  process otherwise, and returns \<open>true\<close>. The result is \<open>Inl e\<close> when the exception \<open>e\<close>
  leaves the hook.
\<close>

definition OnStart ::
  "('w::len) DWORD_PTR env \<Rightarrow> 'w DWORD_PTR state \<Rightarrow> (exn + bool) \<times> 'w DWORD_PTR state" where
  "OnStart env s =
     (let s1 = s\<lparr>calls := calls s @ [CallIsSwitchPresent ''CPUCount'' True]\<rparr>;
          r = (case IsSwitchPresent env ''CPUCount'' True of
                 Some val \<Rightarrow>
                   WriteLineFormatted env Info
                     ''Skipped because the command line contains -CPUCount:%s.'' val s1
               | None \<Rightarrow> ConfigureForSingleCPU env s1)
      in case r of
           (Inl e, s') \<Rightarrow> (Inl e, s')
         | (Inr u, s') \<Rightarrow> (Inr True, s'))"

section \<open>Example hosts\<close>

text \<open>
  Concrete collaborators on a 32-bit platform. \<open>host_plain\<close>: no switch on the command
  line, processors 1 and 3 in both masks, every call succeeds. The others differ from it
  in one field.
\<close>

definition st0 :: "'m state" where
  "st0 = \<lparr>calls = [], logged = []\<rparr>"

definition host_plain :: "32 word env" where
  "host_plain =
     \<lparr>IsSwitchPresent = (\<lambda>name caseSensitive. None),
      GetProcessAffinityMask = Inr (10, 10),
      SetProcessAffinityMask = (\<lambda>mask. None),
      LogSink = (\<lambda>level message. None)\<rparr>"

definition host_CPUCount :: "string \<Rightarrow> 32 word env" where
  "host_CPUCount val =
     host_plain\<lparr>IsSwitchPresent :=
       (\<lambda>name caseSensitive. if name = ''CPUCount'' then Some val else None)\<rparr>"

definition host_query_fails :: "32 word env" where
  "host_query_fails = host_plain\<lparr>GetProcessAffinityMask := Inl ''Access is denied''\<rparr>"

definition host_set_fails :: "32 word env" where
  "host_set_fails =
     host_plain\<lparr>SetProcessAffinityMask := (\<lambda>mask. Some ''The parameter is incorrect'')\<rparr>"

definition host_restricted :: "32 word env" where
  "host_restricted = host_plain\<lparr>GetProcessAffinityMask := Inr (4, 15)\<rparr>"

definition host_zero_mask :: "32 word env" where
  "host_zero_mask = host_plain\<lparr>GetProcessAffinityMask := Inr (0, 0)\<rparr>"

definition host_sink_raises :: "32 word env" where
  "host_sink_raises =
     host_plain\<lparr>LogSink := (\<lambda>level message. Some (OtherException ''bad allocation''))\<rparr>"

section \<open>Arithmetic of the lowest set bit\<close>

lemma GetLowestSetBitMask_eq: "GetLowestSetBitMask M = M AND - M"
  by (simp add: GetLowestSetBitMask_def)

lemma and_double_int: "(a * 2) AND (b * 2) = (a AND b) * (2::int)"
  by (simp add: and_int.rec [of "a * 2"])

lemma and_neg_even_int: "(k * 2) AND - (k * 2) = (k AND - k) * (2::int)"
  using and_double_int [of k "- k"] by simp

lemma and_neg_odd_int: "(1 + k * 2) AND - (1 + k * 2) = (1::int)"
proof -
  have "- (1 + k * 2) = 1 + (NOT k) * 2"
    by (simp add: not_int_def)
  moreover have "(1 + k * 2) AND (1 + (NOT k) * 2) = 1 + (k AND NOT k) * (2::int)"
    by (simp add: and_int.rec [of "1 + k * 2"])
  ultimately show ?thesis by simp
qed

text \<open>On the integers: \<open>x AND - x\<close> is the power of two of the lowest set bit of \<open>x\<close>.\<close>

lemma int_lowest_set_bit:
  "x \<noteq> 0 \<Longrightarrow> \<exists>n. (x::int) AND - x = 2 ^ n \<and> bit x n \<and> (\<forall>m<n. \<not> bit x m)"
proof (induction x rule: int_bit_induct)
  case zero
  then show ?case by simp
next
  case minus
  have "(- 1 :: int) AND - (- 1) = 2 ^ 0 \<and> bit (- 1 :: int) 0 \<and> (\<forall>m<0. \<not> bit (- 1 :: int) m)"
    by simp
  then show ?case by blast
next
  case (even k)
  then obtain n where n: "k AND - k = 2 ^ n" "bit k n" "\<forall>m<n. \<not> bit k m"
    by blast
  have "(k * 2) AND - (k * 2) = 2 ^ Suc n"
    by (simp add: and_neg_even_int n(1))
  moreover have "bit (k * 2) (Suc n)"
    using n(2) by (simp add: bit_Suc)
  moreover have "\<forall>m<Suc n. \<not> bit (k * 2) m"
  proof (intro allI impI)
    fix m assume "m < Suc n"
    then show "\<not> bit (k * 2) m"
      using n(3) by (cases m) (simp_all add: bit_0 bit_Suc)
  qed
  ultimately show ?case by blast
next
  case (odd k)
  have "(1 + k * 2) AND - (1 + k * 2) = 2 ^ 0 \<and> bit (1 + k * 2) 0
      \<and> (\<forall>m<0. \<not> bit (1 + k * 2) m)"
    by (simp only: and_neg_odd_int power_0) (simp add: bit_0)
  then show ?case by blast
qed

text \<open>The same on words of any length, where the negation is taken modulo \<open>2 ^ w\<close>.\<close>

lemma word_lowest_set_bit:
  fixes M :: "'w::len word"
  assumes "M \<noteq> 0"
  shows "\<exists>n<LENGTH('w). M AND - M = 2 ^ n \<and> bit M n \<and> (\<forall>m<n. \<not> bit M m)"
proof -
  from assms have "uint M \<noteq> 0"
    by (simp add: uint_0_iff)
  then obtain n where n: "uint M AND - uint M = 2 ^ n" "bit (uint M) n"
      "\<forall>m<n. \<not> bit (uint M) m"
    using int_lowest_set_bit by blast
  from n(2) have bitM: "bit M n" by (simp add: bit_uint_iff)
  then have len: "n < LENGTH('w)" by (rule bit_imp_le_length)
  have "M AND - M = word_of_int (uint M AND - uint M)"
    by (simp add: of_int_and_eq)
  then have "M AND - M = 2 ^ n" by (simp add: n(1))
  moreover have "\<forall>m<n. \<not> bit M m"
    using n(3) len by (auto simp add: bit_uint_iff)
  ultimately show ?thesis using bitM len by blast
qed

lemma word_and_neg_exp:
  fixes n :: nat
  assumes "n < LENGTH('w::len)"
  shows "(2 ^ n :: 'w word) AND - (2 ^ n) = 2 ^ n"
proof -
  have nz: "(2 ^ n :: 'w word) \<noteq> 0"
    using assms by simp
  from word_lowest_set_bit [OF nz] obtain k where
    k: "(2 ^ n :: 'w word) AND - (2 ^ n) = 2 ^ k" "bit (2 ^ n :: 'w word) k"
    by blast
  from k(2) have "k = n" by (simp add: bit_exp_iff)
  with k(1) show ?thesis by simp
qed

lemma GetLowestSetBitMask_zero: "GetLowestSetBitMask 0 = 0"
  by (simp add: GetLowestSetBitMask_eq)

lemma GetLowestSetBitMask_idem:
  "GetLowestSetBitMask (GetLowestSetBitMask M) = GetLowestSetBitMask M"
proof (cases "M = 0")
  case True
  then show ?thesis by (simp add: GetLowestSetBitMask_zero)
next
  case False
  from word_lowest_set_bit [OF False] obtain n where
    "n < LENGTH('a)" "M AND - M = 2 ^ n"
    by blast
  then show ?thesis
    by (simp add: GetLowestSetBitMask_eq word_and_neg_exp)
qed

text \<open>The examples of the specification, on 32 and on 64 bits.\<close>

lemma GetLowestSetBitMask_examples:
  "GetLowestSetBitMask (6 :: 32 word) = 2"
  "GetLowestSetBitMask (9 :: 32 word) = 1"
  "GetLowestSetBitMask (8 :: 32 word) = 8"
  "GetLowestSetBitMask (15 :: 32 word) = 1"
  "GetLowestSetBitMask (6 :: 64 word) = 2"
  "GetLowestSetBitMask (9 :: 64 word) = 1"
  "GetLowestSetBitMask (8 :: 64 word) = 8"
  "GetLowestSetBitMask (15 :: 64 word) = 1"
  by (simp_all add: GetLowestSetBitMask_eq)

lemma GetLowestSetBitMask_10: "GetLowestSetBitMask (10 :: 'w::len word) = 2"
  by (simp add: GetLowestSetBitMask_eq)

section \<open>Properties of the selection\<close>

text \<open>
  C1. For every non-zero mask \<open>M\<close>, \<open>GetLowestSetBitMask M\<close> is \<open>M AND - M\<close>, and there is
  a bit position \<open>n\<close> of the word such that the result is \<open>2 ^ n\<close> (bit \<open>n\<close> is set in the
  result and no other bit is), bit \<open>n\<close> is set in \<open>M\<close>, and no bit of \<open>M\<close> below \<open>n\<close> is set.
\<close>

theorem GetLowestSetBitMask_lowest_set_bit:
  fixes M :: "'w::len word"
  assumes "M \<noteq> 0"
  shows "GetLowestSetBitMask M = M AND - M
    \<and> (\<exists>n<LENGTH('w). GetLowestSetBitMask M = 2 ^ n
          \<and> (\<forall>i. bit (GetLowestSetBitMask M) i \<longleftrightarrow> i = n)
          \<and> bit M n \<and> (\<forall>m<n. \<not> bit M m))"
proof -
  from word_lowest_set_bit [OF assms] obtain n where
    n: "n < LENGTH('w)" "M AND - M = 2 ^ n" "bit M n" "\<forall>m<n. \<not> bit M m"
    by blast
  have eq: "GetLowestSetBitMask M = 2 ^ n"
    by (simp add: GetLowestSetBitMask_eq n(2))
  have "\<forall>i. bit (GetLowestSetBitMask M) i \<longleftrightarrow> i = n"
    using n(1) by (auto simp add: eq bit_exp_iff)
  with eq n show ?thesis
    using GetLowestSetBitMask_eq [of M] by blast
qed

theorem GetLowestSetBitMask_lowest_set_bit_witness:
  "(6 :: 32 word) \<noteq> 0
    \<and> GetLowestSetBitMask (6 :: 32 word) = 6 AND - 6
    \<and> GetLowestSetBitMask (6 :: 32 word) = 2"
proof -
  have h: "(6 :: 32 word) \<noteq> 0" by simp
  from GetLowestSetBitMask_lowest_set_bit [OF h]
  have sel: "GetLowestSetBitMask (6 :: 32 word) = 6 AND - 6"
    by (rule conjunct1)
  have "(6 :: 32 word) AND - 6 = 2" by simp
  with h sel show ?thesis by simp
qed

text \<open>
  C10. For every mask \<open>M\<close> (zero and the topmost-bit-only mask included, where the negation
  wraps), the result has only bits of \<open>M\<close> (the result AND \<open>M\<close> is the result) and is at most
  \<open>M\<close> as an unsigned number. At the mask whose only set bit is the topmost one the result
  is that mask, and at zero it is zero.
\<close>

theorem GetLowestSetBitMask_subset_le:
  fixes M :: "'w::len word"
  shows "GetLowestSetBitMask M AND M = GetLowestSetBitMask M
    \<and> GetLowestSetBitMask M \<le> M
    \<and> GetLowestSetBitMask (0 :: 'w word) = 0
    \<and> GetLowestSetBitMask (2 ^ (LENGTH('w) - 1) :: 'w word) = 2 ^ (LENGTH('w) - 1)"
proof -
  have sub: "GetLowestSetBitMask M AND M = GetLowestSetBitMask M"
    by (simp add: GetLowestSetBitMask_eq ac_simps)
  have le: "GetLowestSetBitMask M \<le> M"
    unfolding GetLowestSetBitMask_eq by (rule word_and_le2)
  have zero: "GetLowestSetBitMask (0 :: 'w word) = 0"
    by (simp add: GetLowestSetBitMask_eq)
  have top: "GetLowestSetBitMask (2 ^ (LENGTH('w) - 1) :: 'w word) = 2 ^ (LENGTH('w) - 1)"
    by (simp add: GetLowestSetBitMask_eq word_and_neg_exp)
  from sub le zero top show ?thesis by simp
qed

section \<open>Runs of the configuration\<close>

lemma format_s_skip:
  "format_s ''Skipped because the command line contains -CPUCount:%s.'' v
     = ''Skipped because the command line contains -CPUCount:'' @ v @ ''.''"
  by simp

lemma format_s_os_error:
  "format_s ''An OS error occurred when configuring the game to use 1 CPU: %s.'' v
     = ''An OS error occurred when configuring the game to use 1 CPU: '' @ v @ ''.''"
  by simp

lemma WriteLine_accepted:
  "LogSinkAccepts env \<Longrightarrow>
     WriteLine env level message s = (Inr (), s\<lparr>logged := logged s @ [(level, message)]\<rparr>)"
  by (simp add: WriteLine_def LogSinkAccepts_def)

lemma WriteLine_calls: "calls (snd (WriteLine env level message s)) = calls s"
  by (simp add: WriteLine_def split: option.splits)

text \<open>The calls of the \<open>try\<close> block, whatever the log sink does.\<close>

lemma try_calls_query_failed:
  "GetProcessAffinityMask env = Inl d \<Longrightarrow>
     ConfigureForSingleCPU_try env s
       = (Inl (ResultException d), s\<lparr>calls := calls s @ [CallGetProcessAffinityMask]\<rparr>)"
  by (simp add: ConfigureForSingleCPU_try_def)

lemma try_set_failed:
  "GetProcessAffinityMask env = Inr (pm, sm) \<Longrightarrow>
   SetProcessAffinityMask env (GetLowestSetBitMask sm) = Some d \<Longrightarrow>
     ConfigureForSingleCPU_try env s
       = (Inl (ResultException d),
          s\<lparr>calls := calls s @ [CallGetProcessAffinityMask,
                CallSetProcessAffinityMask (GetLowestSetBitMask sm)]\<rparr>)"
  by (simp add: ConfigureForSingleCPU_try_def)

lemma try_set_succeeded:
  "GetProcessAffinityMask env = Inr (pm, sm) \<Longrightarrow>
   SetProcessAffinityMask env (GetLowestSetBitMask sm) = None \<Longrightarrow>
     ConfigureForSingleCPU_try env s
       = WriteLine env Info ''Configured the game to use 1 CPU core.''
          (s\<lparr>calls := calls s @ [CallGetProcessAffinityMask,
                CallSetProcessAffinityMask (GetLowestSetBitMask sm)]\<rparr>)"
  by (simp add: ConfigureForSingleCPU_try_def)

lemma try_calls_queried:
  "GetProcessAffinityMask env = Inr (pm, sm) \<Longrightarrow>
     calls (snd (ConfigureForSingleCPU_try env s))
       = calls s @ [CallGetProcessAffinityMask,
           CallSetProcessAffinityMask (GetLowestSetBitMask sm)]"
  by (cases "SetProcessAffinityMask env (GetLowestSetBitMask sm)")
     (simp_all add: try_set_failed try_set_succeeded WriteLine_calls)

lemma ConfigureForSingleCPU_calls:
  "calls (snd (ConfigureForSingleCPU env s)) = calls (snd (ConfigureForSingleCPU_try env s))"
  by (simp add: ConfigureForSingleCPU_def WriteLineFormatted_def WriteLine_calls
      split: prod.splits sum.splits exn.splits)

lemma ConfigureForSingleCPU_calls_queried:
  "GetProcessAffinityMask env = Inr (pm, sm) \<Longrightarrow>
     calls (snd (ConfigureForSingleCPU env s))
       = calls s @ [CallGetProcessAffinityMask,
           CallSetProcessAffinityMask (GetLowestSetBitMask sm)]"
  by (simp add: ConfigureForSingleCPU_calls try_calls_queried)

lemma ConfigureForSingleCPU_calls_prefix:
  "\<exists>rest. calls (snd (ConfigureForSingleCPU env s))
     = calls s @ CallGetProcessAffinityMask # rest"
proof (cases "GetProcessAffinityMask env")
  case (Inl d)
  then show ?thesis
    by (simp add: ConfigureForSingleCPU_calls try_calls_query_failed)
next
  case (Inr p)
  then obtain pm sm where "GetProcessAffinityMask env = Inr (pm, sm)"
    by (cases p) simp
  then show ?thesis
    by (simp add: ConfigureForSingleCPU_calls_queried)
qed

text \<open>The outcome of the configuration when the log sink accepts lines.\<close>

lemma ConfigureForSingleCPU_query_failed:
  assumes "LogSinkAccepts env" and "GetProcessAffinityMask env = Inl d"
  shows "ConfigureForSingleCPU env s
    = (Inr (), s\<lparr>calls := calls s @ [CallGetProcessAffinityMask],
         logged := logged s @
           [(Error, ''An OS error occurred when configuring the game to use 1 CPU: '' @ d @ ''.'')]\<rparr>)"
  using assms
  by (simp add: ConfigureForSingleCPU_def try_calls_query_failed WriteLineFormatted_def
      WriteLine_accepted)

lemma ConfigureForSingleCPU_set_failed:
  assumes "LogSinkAccepts env" and "GetProcessAffinityMask env = Inr (pm, sm)"
    and "SetProcessAffinityMask env (GetLowestSetBitMask sm) = Some d"
  shows "ConfigureForSingleCPU env s
    = (Inr (), s\<lparr>calls := calls s @ [CallGetProcessAffinityMask,
           CallSetProcessAffinityMask (GetLowestSetBitMask sm)],
         logged := logged s @
           [(Error, ''An OS error occurred when configuring the game to use 1 CPU: '' @ d @ ''.'')]\<rparr>)"
  using assms
  by (simp add: ConfigureForSingleCPU_def try_set_failed WriteLineFormatted_def
      WriteLine_accepted)

lemma ConfigureForSingleCPU_applied:
  assumes "LogSinkAccepts env" and "GetProcessAffinityMask env = Inr (pm, sm)"
    and "SetProcessAffinityMask env (GetLowestSetBitMask sm) = None"
  shows "ConfigureForSingleCPU env s
    = (Inr (), s\<lparr>calls := calls s @ [CallGetProcessAffinityMask,
           CallSetProcessAffinityMask (GetLowestSetBitMask sm)],
         logged := logged s @ [(Info, ''Configured the game to use 1 CPU core.'')]\<rparr>)"
  using assms
  by (simp add: ConfigureForSingleCPU_def try_set_succeeded WriteLine_accepted)

lemma ConfigureForSingleCPU_returns:
  assumes "LogSinkAccepts env"
  shows "fst (ConfigureForSingleCPU env s) = Inr ()"
proof (cases "GetProcessAffinityMask env")
  case (Inl d)
  with assms show ?thesis
    by (simp add: ConfigureForSingleCPU_query_failed)
next
  case (Inr p)
  then obtain pm sm where q: "GetProcessAffinityMask env = Inr (pm, sm)"
    by (cases p) simp
  show ?thesis
  proof (cases "SetProcessAffinityMask env (GetLowestSetBitMask sm)")
    case None
    with assms q show ?thesis
      by (simp add: ConfigureForSingleCPU_applied)
  next
    case (Some d)
    with assms q show ?thesis
      by (simp add: ConfigureForSingleCPU_set_failed)
  qed
qed

section \<open>Runs of the startup hook\<close>

lemma OnStart_switch_present:
  "IsSwitchPresent env ''CPUCount'' True = Some val \<Longrightarrow>
     OnStart env s =
       (case WriteLine env Info
               (''Skipped because the command line contains -CPUCount:'' @ val @ ''.'')
               (s\<lparr>calls := calls s @ [CallIsSwitchPresent ''CPUCount'' True]\<rparr>) of
          (Inl e, s') \<Rightarrow> (Inl e, s')
        | (Inr u, s') \<Rightarrow> (Inr True, s'))"
  by (simp add: OnStart_def WriteLineFormatted_def)

lemma OnStart_switch_absent:
  "IsSwitchPresent env ''CPUCount'' True = None \<Longrightarrow>
     OnStart env s =
       (case ConfigureForSingleCPU env
               (s\<lparr>calls := calls s @ [CallIsSwitchPresent ''CPUCount'' True]\<rparr>) of
          (Inl e, s') \<Rightarrow> (Inl e, s')
        | (Inr u, s') \<Rightarrow> (Inr True, s'))"
  by (simp add: OnStart_def)

lemma OnStart_switch_absent_state:
  "IsSwitchPresent env ''CPUCount'' True = None \<Longrightarrow>
     snd (OnStart env s) =
       snd (ConfigureForSingleCPU env
              (s\<lparr>calls := calls s @ [CallIsSwitchPresent ''CPUCount'' True]\<rparr>))"
  by (simp add: OnStart_switch_absent split: prod.splits sum.splits)

lemma OnStart_switch_present_calls:
  "IsSwitchPresent env ''CPUCount'' True = Some val \<Longrightarrow>
     calls (snd (OnStart env s)) = calls s @ [CallIsSwitchPresent ''CPUCount'' True]"
  by (simp add: OnStart_switch_present WriteLine_def split: option.splits)

text \<open>
  The hook has one \<open>return\<close> statement. A run that does not reach it ends with an
  exception that the log sink raised.
\<close>

lemma WriteLine_outcome:
  "fst (WriteLine env level message s) = Inr ()
    \<or> (\<exists>e. LogSink env level message = Some e \<and> fst (WriteLine env level message s) = Inl e)"
  by (cases "LogSink env level message") (simp_all add: WriteLine_def)

lemma ConfigureForSingleCPU_outcome:
  "fst (ConfigureForSingleCPU env s) = Inr ()
    \<or> (\<exists>level message e. LogSink env level message = Some e
          \<and> fst (ConfigureForSingleCPU env s) = Inl e)"
proof -
  obtain r s' where t: "ConfigureForSingleCPU_try env s = (r, s')"
    by (cases "ConfigureForSingleCPU_try env s")
  show ?thesis
  proof (cases r)
    case (Inr u)
    with t show ?thesis by (simp add: ConfigureForSingleCPU_def)
  next
    case (Inl x)
    show ?thesis
    proof (cases x)
      case (ResultException d)
      with Inl t have "ConfigureForSingleCPU env s =
          WriteLine env Error
            (''An OS error occurred when configuring the game to use 1 CPU: '' @ d @ ''.'') s'"
        by (simp add: ConfigureForSingleCPU_def WriteLineFormatted_def)
      with WriteLine_outcome [of env Error
          "''An OS error occurred when configuring the game to use 1 CPU: '' @ d @ ''.''" s']
      show ?thesis by auto
    next
      case (OtherException w)
      with Inl t have r: "ConfigureForSingleCPU env s = (Inl (OtherException w), s')"
        by (simp add: ConfigureForSingleCPU_def)
      from Inl OtherException t
      have "LogSink env Info ''Configured the game to use 1 CPU core.'' = Some (OtherException w)"
        by (auto simp add: ConfigureForSingleCPU_try_def Let_def WriteLine_def
            split: sum.splits prod.splits option.splits)
      with r show ?thesis by auto
    qed
  qed
qed

lemma OnStart_outcome:
  "fst (OnStart env s) = Inr True
    \<or> (\<exists>level message e. LogSink env level message = Some e \<and> fst (OnStart env s) = Inl e)"
proof (cases "IsSwitchPresent env ''CPUCount'' True")
  case None
  let ?s1 = "s\<lparr>calls := calls s @ [CallIsSwitchPresent ''CPUCount'' True]\<rparr>"
  from ConfigureForSingleCPU_outcome [of env ?s1] show ?thesis
    by (cases "ConfigureForSingleCPU env ?s1") (auto simp add: OnStart_switch_absent None)
next
  case (Some val)
  let ?s1 = "s\<lparr>calls := calls s @ [CallIsSwitchPresent ''CPUCount'' True]\<rparr>"
  let ?m = "''Skipped because the command line contains -CPUCount:'' @ val @ ''.''"
  from WriteLine_outcome [of env Info ?m ?s1] show ?thesis
    by (cases "WriteLine env Info ?m ?s1") (auto simp add: OnStart_switch_present Some)
qed

section \<open>Properties of the startup hook and of the configuration\<close>

text \<open>
  C2. When the command line has the switch \<open>CPUCount\<close>, with any value \<open>val\<close> (the empty
  text included), the startup hook makes no call to the operating system: the only boundary
  call of the run is the query of the command line. When the log sink accepts lines, the
  run returns \<open>true\<close> and logs exactly the Info line of the skip, which holds \<open>val\<close>
  verbatim. When the switch is absent, the run is the run of \<open>ConfigureForSingleCPU\<close>, whose
  first call is the affinity query. In every run the query of the command line comes
  before every other boundary call, so before any change of the affinity.
\<close>

theorem OnStart_CPUCount_override:
  shows "(IsSwitchPresent env ''CPUCount'' True = Some val \<longrightarrow>
            calls (snd (OnStart env s)) = calls s @ [CallIsSwitchPresent ''CPUCount'' True]
          \<and> (LogSinkAccepts env \<longrightarrow>
                OnStart env s =
                  (Inr True,
                   s\<lparr>calls := calls s @ [CallIsSwitchPresent ''CPUCount'' True],
                     logged := logged s @
                       [(Info, ''Skipped because the command line contains -CPUCount:''
                               @ val @ ''.'')]\<rparr>)
              \<and> sublist val
                  (''Skipped because the command line contains -CPUCount:'' @ val @ ''.'')))
    \<and> (IsSwitchPresent env ''CPUCount'' True = None \<longrightarrow>
            snd (OnStart env s) =
              snd (ConfigureForSingleCPU env
                     (s\<lparr>calls := calls s @ [CallIsSwitchPresent ''CPUCount'' True]\<rparr>))
          \<and> (\<exists>rest. calls (snd (OnStart env s)) =
                calls s @ CallIsSwitchPresent ''CPUCount'' True
                  # CallGetProcessAffinityMask # rest))
    \<and> (\<exists>rest. calls (snd (OnStart env s)) =
          calls s @ CallIsSwitchPresent ''CPUCount'' True # rest)"
proof -
  let ?s1 = "s\<lparr>calls := calls s @ [CallIsSwitchPresent ''CPUCount'' True]\<rparr>"
  have present: "calls (snd (OnStart env s)) = calls s @ [CallIsSwitchPresent ''CPUCount'' True]"
    if "IsSwitchPresent env ''CPUCount'' True = Some val"
    using that by (rule OnStart_switch_present_calls)
  have skip: "OnStart env s =
      (Inr True,
       s\<lparr>calls := calls s @ [CallIsSwitchPresent ''CPUCount'' True],
         logged := logged s @
           [(Info, ''Skipped because the command line contains -CPUCount:'' @ val @ ''.'')]\<rparr>)"
    if "IsSwitchPresent env ''CPUCount'' True = Some val" and "LogSinkAccepts env"
    using that by (simp add: OnStart_switch_present WriteLine_accepted)
  have verbatim: "sublist val
      (''Skipped because the command line contains -CPUCount:'' @ val @ ''.'')"
    by (rule sublist_appendI)
  have absent_state: "snd (OnStart env s) = snd (ConfigureForSingleCPU env ?s1)"
    if "IsSwitchPresent env ''CPUCount'' True = None"
    using that by (rule OnStart_switch_absent_state)
  have absent_calls: "\<exists>rest. calls (snd (OnStart env s)) =
      calls s @ CallIsSwitchPresent ''CPUCount'' True # CallGetProcessAffinityMask # rest"
    if "IsSwitchPresent env ''CPUCount'' True = None"
  proof -
    from ConfigureForSingleCPU_calls_prefix [of env ?s1] obtain rest where
      "calls (snd (ConfigureForSingleCPU env ?s1)) = calls ?s1 @ CallGetProcessAffinityMask # rest"
      by blast
    with absent_state [OF that] show ?thesis by simp
  qed
  have first: "\<exists>rest. calls (snd (OnStart env s)) =
      calls s @ CallIsSwitchPresent ''CPUCount'' True # rest"
  proof (cases "IsSwitchPresent env ''CPUCount'' True")
    case None
    from absent_calls [OF None] show ?thesis by blast
  next
    case (Some v)
    then have "calls (snd (OnStart env s)) = calls s @ [CallIsSwitchPresent ''CPUCount'' True]"
      by (rule OnStart_switch_present_calls)
    then show ?thesis by simp
  qed
  from present skip verbatim absent_state absent_calls first show ?thesis
    by blast
qed

theorem OnStart_CPUCount_override_witness:
  "IsSwitchPresent (host_CPUCount '''') ''CPUCount'' True = Some ''''
    \<and> LogSinkAccepts (host_CPUCount '''')
    \<and> OnStart (host_CPUCount '''') st0 =
        (Inr True,
         \<lparr>calls = [CallIsSwitchPresent ''CPUCount'' True],
          logged = [(Info, ''Skipped because the command line contains -CPUCount:.'')]\<rparr>)
    \<and> IsSwitchPresent (host_CPUCount ''1'') ''CPUCount'' True = Some ''1''
    \<and> LogSinkAccepts (host_CPUCount ''1'')
    \<and> OnStart (host_CPUCount ''1'') st0 =
        (Inr True,
         \<lparr>calls = [CallIsSwitchPresent ''CPUCount'' True],
          logged = [(Info, ''Skipped because the command line contains -CPUCount:1.'')]\<rparr>)
    \<and> IsSwitchPresent host_plain ''CPUCount'' True = None
    \<and> snd (OnStart host_plain st0) =
        snd (ConfigureForSingleCPU host_plain
               \<lparr>calls = [CallIsSwitchPresent ''CPUCount'' True], logged = []\<rparr>)"
proof -
  have p0: "IsSwitchPresent (host_CPUCount '''') ''CPUCount'' True = Some ''''"
    by (simp add: host_CPUCount_def host_plain_def)
  have a0: "LogSinkAccepts (host_CPUCount '''')"
    by (simp add: LogSinkAccepts_def host_CPUCount_def host_plain_def)
  have p1: "IsSwitchPresent (host_CPUCount ''1'') ''CPUCount'' True = Some ''1''"
    by (simp add: host_CPUCount_def host_plain_def)
  have a1: "LogSinkAccepts (host_CPUCount ''1'')"
    by (simp add: LogSinkAccepts_def host_CPUCount_def host_plain_def)
  have n: "IsSwitchPresent host_plain ''CPUCount'' True = None"
    by (simp add: host_plain_def)
  show ?thesis
    using p0 a0 p1 a1 n
      OnStart_CPUCount_override [of "host_CPUCount ''''" "''''" st0]
      OnStart_CPUCount_override [of "host_CPUCount ''1''" "''1''" st0]
      OnStart_CPUCount_override [of host_plain "''''" st0]
    by (simp add: st0_def)
qed

text \<open>
  C3. When the affinity query or the affinity set reports failure with the diagnostic text
  \<open>d\<close>, and the log sink accepts lines, \<open>ConfigureForSingleCPU\<close> returns normally (no
  exception leaves it) and the run adds exactly one line to the log: an Error line that
  holds \<open>d\<close>.
\<close>

theorem ConfigureForSingleCPU_fail_open:
  assumes "LogSinkAccepts env"
    and "GetProcessAffinityMask env = Inl d
      \<or> (\<exists>pm sm. GetProcessAffinityMask env = Inr (pm, sm)
            \<and> SetProcessAffinityMask env (GetLowestSetBitMask sm) = Some d)"
  shows "fst (ConfigureForSingleCPU env s) = Inr ()
    \<and> logged (snd (ConfigureForSingleCPU env s)) =
        logged s @
          [(Error, ''An OS error occurred when configuring the game to use 1 CPU: '' @ d @ ''.'')]
    \<and> sublist d (''An OS error occurred when configuring the game to use 1 CPU: '' @ d @ ''.'')"
proof -
  have verbatim:
    "sublist d (''An OS error occurred when configuring the game to use 1 CPU: '' @ d @ ''.'')"
    by (rule sublist_appendI)
  from assms(2) show ?thesis
  proof
    assume "GetProcessAffinityMask env = Inl d"
    with assms(1) verbatim show ?thesis
      by (simp add: ConfigureForSingleCPU_query_failed)
  next
    assume "\<exists>pm sm. GetProcessAffinityMask env = Inr (pm, sm)
      \<and> SetProcessAffinityMask env (GetLowestSetBitMask sm) = Some d"
    then obtain pm sm where "GetProcessAffinityMask env = Inr (pm, sm)"
      and "SetProcessAffinityMask env (GetLowestSetBitMask sm) = Some d"
      by blast
    with assms(1) verbatim show ?thesis
      by (simp add: ConfigureForSingleCPU_set_failed)
  qed
qed

theorem ConfigureForSingleCPU_fail_open_witness:
  "LogSinkAccepts host_query_fails
    \<and> GetProcessAffinityMask host_query_fails = Inl ''Access is denied''
    \<and> ConfigureForSingleCPU host_query_fails st0 =
        (Inr (),
         \<lparr>calls = [CallGetProcessAffinityMask],
          logged = [(Error,
            ''An OS error occurred when configuring the game to use 1 CPU: Access is denied.'')]\<rparr>)
    \<and> LogSinkAccepts host_set_fails
    \<and> GetProcessAffinityMask host_set_fails = Inr (10, 10)
    \<and> SetProcessAffinityMask host_set_fails (GetLowestSetBitMask 10)
        = Some ''The parameter is incorrect''
    \<and> fst (ConfigureForSingleCPU host_set_fails st0) = Inr ()
    \<and> logged (snd (ConfigureForSingleCPU host_set_fails st0)) =
        [(Error,
          ''An OS error occurred when configuring the game to use 1 CPU: The parameter is incorrect.'')]"
proof -
  have a1: "LogSinkAccepts host_query_fails"
    by (simp add: LogSinkAccepts_def host_query_fails_def host_plain_def)
  have q1: "GetProcessAffinityMask host_query_fails = Inl ''Access is denied''"
    by (simp add: host_query_fails_def host_plain_def)
  have a2: "LogSinkAccepts host_set_fails"
    by (simp add: LogSinkAccepts_def host_set_fails_def host_plain_def)
  have q2: "GetProcessAffinityMask host_set_fails = Inr (10, 10)"
    by (simp add: host_set_fails_def host_plain_def)
  have f2: "SetProcessAffinityMask host_set_fails (GetLowestSetBitMask 10)
      = Some ''The parameter is incorrect''"
    by (simp add: host_set_fails_def host_plain_def)
  have c1: "ConfigureForSingleCPU host_query_fails st0 =
      (Inr (),
       \<lparr>calls = [CallGetProcessAffinityMask],
        logged = [(Error,
          ''An OS error occurred when configuring the game to use 1 CPU: Access is denied.'')]\<rparr>)"
    using ConfigureForSingleCPU_fail_open [of host_query_fails "''Access is denied''" st0] a1 q1
      ConfigureForSingleCPU_calls [of host_query_fails st0]
      try_calls_query_failed [OF q1, of st0]
    by (cases "ConfigureForSingleCPU host_query_fails st0") (simp add: st0_def)
  have c2: "fst (ConfigureForSingleCPU host_set_fails st0) = Inr ()
      \<and> logged (snd (ConfigureForSingleCPU host_set_fails st0)) =
        [(Error,
          ''An OS error occurred when configuring the game to use 1 CPU: The parameter is incorrect.'')]"
    using ConfigureForSingleCPU_fail_open
      [of host_set_fails "''The parameter is incorrect''" st0] a2 q2 f2
    by (simp add: st0_def)
  from a1 q1 c1 a2 q2 f2 c2 show ?thesis by blast
qed

text \<open>
  C4 (as amended). For every pair \<open>(processMask, systemMask)\<close> that the affinity query
  returns with a non-zero \<open>systemMask\<close>, the mask passed to \<open>SetProcessAffinityMask\<close> has
  exactly one bit, and that bit is the lowest bit set in \<open>systemMask\<close>: the processor is
  selected from the system-wide mask, whatever \<open>processMask\<close> is.
\<close>

theorem ConfigureForSingleCPU_selects_from_system_mask:
  fixes env :: "('w::len) word env"
  assumes "GetProcessAffinityMask env = Inr (pm, sm)" and "sm \<noteq> 0"
  shows "\<exists>n<LENGTH('w).
      calls (snd (ConfigureForSingleCPU env s)) =
        calls s @ [CallGetProcessAffinityMask, CallSetProcessAffinityMask (2 ^ n)]
    \<and> GetLowestSetBitMask sm = 2 ^ n
    \<and> bit sm n \<and> (\<forall>m<n. \<not> bit sm m)"
proof -
  from word_lowest_set_bit [OF assms(2)] obtain n where
    n: "n < LENGTH('w)" "sm AND - sm = 2 ^ n" "bit sm n" "\<forall>m<n. \<not> bit sm m"
    by blast
  have sel: "GetLowestSetBitMask sm = 2 ^ n"
    by (simp add: GetLowestSetBitMask_eq n(2))
  have "calls (snd (ConfigureForSingleCPU env s)) =
      calls s @ [CallGetProcessAffinityMask, CallSetProcessAffinityMask (2 ^ n)]"
    using ConfigureForSingleCPU_calls_queried [OF assms(1), of s] by (simp add: sel)
  with sel n show ?thesis by blast
qed

theorem ConfigureForSingleCPU_selects_from_system_mask_witness:
  "GetProcessAffinityMask host_plain = Inr (10, 10) \<and> (10 :: 32 word) \<noteq> 0
    \<and> calls (snd (ConfigureForSingleCPU host_plain st0)) =
        [CallGetProcessAffinityMask, CallSetProcessAffinityMask 2]
    \<and> bit (10 :: 32 word) 1 \<and> \<not> bit (10 :: 32 word) 0"
proof -
  have q: "GetProcessAffinityMask host_plain = Inr (10, 10)"
    by (simp add: host_plain_def)
  have nz: "(10 :: 32 word) \<noteq> 0" by simp
  from ConfigureForSingleCPU_selects_from_system_mask [OF q nz, of st0] obtain n where
    c: "calls (snd (ConfigureForSingleCPU host_plain st0)) =
        calls (st0 :: 32 word state)
          @ [CallGetProcessAffinityMask, CallSetProcessAffinityMask (2 ^ n)]"
    and g: "GetLowestSetBitMask (10 :: 32 word) = 2 ^ n"
    by blast
  from g have "(2 ^ n :: 32 word) = 2"
    by (simp add: GetLowestSetBitMask_10)
  with c have "calls (snd (ConfigureForSingleCPU host_plain st0)) =
      [CallGetProcessAffinityMask, CallSetProcessAffinityMask 2]"
    by (simp add: st0_def)
  with q nz show ?thesis
    by (simp add: bit_0 bit_Suc numeral_2_eq_2 [symmetric])
qed

text \<open>
  The claim as first stated fails: a process restricted to processor 2 (process mask
  \<open>0b0100\<close>) on a machine with processors 0 to 3 (system mask \<open>0b1111\<close>) is given the mask
  \<open>0b0001\<close>, which is no bit of its process mask.
\<close>

theorem ConfigureForSingleCPU_process_mask_counterexample:
  "GetProcessAffinityMask host_restricted = Inr (4, 15)
    \<and> calls (snd (ConfigureForSingleCPU host_restricted st0)) =
        [CallGetProcessAffinityMask, CallSetProcessAffinityMask 1]
    \<and> (1 :: 32 word) AND 4 \<noteq> 1
    \<and> \<not> bit (4 :: 32 word) 0"
proof -
  have q: "GetProcessAffinityMask host_restricted = Inr (4, 15)"
    by (simp add: host_restricted_def host_plain_def)
  have "calls (snd (ConfigureForSingleCPU host_restricted st0)) =
      [CallGetProcessAffinityMask, CallSetProcessAffinityMask 1]"
    using ConfigureForSingleCPU_calls_queried [OF q, of st0]
    by (simp add: st0_def GetLowestSetBitMask_examples)
  with q show ?thesis by (simp add: bit_0)
qed

text \<open>
  C5. When the log sink accepts lines, the startup hook returns \<open>true\<close> for every command
  line and every outcome of the operating-system calls: configuration skipped, applied, or
  failed at the query or at the set. Whatever the log sink does, the hook never returns
  \<open>false\<close>: a run either returns \<open>true\<close> or ends with an exception that the log sink
  raised, so no failure of an operating-system call reaches the host.
\<close>

theorem OnStart_returns_true:
  shows "(LogSinkAccepts env \<longrightarrow> fst (OnStart env s) = Inr True)
    \<and> (fst (OnStart env s) = Inr True
        \<or> (\<exists>level message e. LogSink env level message = Some e
              \<and> fst (OnStart env s) = Inl e))"
proof -
  let ?s1 = "s\<lparr>calls := calls s @ [CallIsSwitchPresent ''CPUCount'' True]\<rparr>"
  have accepted: "fst (OnStart env s) = Inr True" if a: "LogSinkAccepts env"
  proof (cases "IsSwitchPresent env ''CPUCount'' True")
    case None
    from ConfigureForSingleCPU_returns [OF a, of ?s1]
    show ?thesis
      by (cases "ConfigureForSingleCPU env ?s1") (simp add: OnStart_switch_absent None)
  next
    case (Some val)
    with a show ?thesis
      by (simp add: OnStart_switch_present WriteLine_accepted)
  qed
  from accepted OnStart_outcome [of env s] show ?thesis by blast
qed

theorem OnStart_returns_true_witness:
  "LogSinkAccepts (host_CPUCount ''2'') \<and> fst (OnStart (host_CPUCount ''2'') st0) = Inr True
    \<and> LogSinkAccepts host_plain \<and> fst (OnStart host_plain st0) = Inr True
    \<and> LogSinkAccepts host_query_fails \<and> fst (OnStart host_query_fails st0) = Inr True
    \<and> LogSinkAccepts host_set_fails \<and> fst (OnStart host_set_fails st0) = Inr True"
proof -
  have a: "LogSinkAccepts (host_CPUCount ''2'')" "LogSinkAccepts host_plain"
    "LogSinkAccepts host_query_fails" "LogSinkAccepts host_set_fails"
    by (simp_all add: LogSinkAccepts_def host_CPUCount_def host_query_fails_def
        host_set_fails_def host_plain_def)
  from a OnStart_returns_true [of "host_CPUCount ''2''" st0]
    OnStart_returns_true [of host_plain st0]
    OnStart_returns_true [of host_query_fails st0]
    OnStart_returns_true [of host_set_fails st0]
  show ?thesis by blast
qed

text \<open>
  C6. End to end: the command line has no switch \<open>CPUCount\<close>, the query reports the system
  mask \<open>0b1010\<close>, the set of \<open>0b0010\<close> succeeds and the log sink accepts lines. Then the run
  calls \<open>SetProcessAffinityMask\<close> once, with \<open>0b0010\<close>, returns \<open>true\<close>, and logs exactly one
  line: an Info line that mentions \<open>1 CPU core\<close>.
\<close>

theorem OnStart_end_to_end:
  fixes env :: "('w::len) word env"
  assumes "IsSwitchPresent env ''CPUCount'' True = None"
    and "GetProcessAffinityMask env = Inr (pm, 10)"
    and "SetProcessAffinityMask env 2 = None"
    and "LogSinkAccepts env"
  shows "OnStart env s =
      (Inr True,
       s\<lparr>calls := calls s @ [CallIsSwitchPresent ''CPUCount'' True,
              CallGetProcessAffinityMask, CallSetProcessAffinityMask 2],
         logged := logged s @ [(Info, ''Configured the game to use 1 CPU core.'')]\<rparr>)
    \<and> sublist ''1 CPU core'' ''Configured the game to use 1 CPU core.''"
proof -
  let ?s1 = "s\<lparr>calls := calls s @ [CallIsSwitchPresent ''CPUCount'' True]\<rparr>"
  have set_ok: "SetProcessAffinityMask env (GetLowestSetBitMask 10) = None"
    using assms(3) by (simp add: GetLowestSetBitMask_10)
  have "ConfigureForSingleCPU env ?s1 =
      (Inr (), ?s1\<lparr>calls := calls ?s1 @ [CallGetProcessAffinityMask,
           CallSetProcessAffinityMask (GetLowestSetBitMask 10)],
         logged := logged ?s1 @ [(Info, ''Configured the game to use 1 CPU core.'')]\<rparr>)"
    by (rule ConfigureForSingleCPU_applied [OF assms(4) assms(2) set_ok])
  then have run: "OnStart env s =
      (Inr True,
       s\<lparr>calls := calls s @ [CallIsSwitchPresent ''CPUCount'' True,
              CallGetProcessAffinityMask, CallSetProcessAffinityMask 2],
         logged := logged s @ [(Info, ''Configured the game to use 1 CPU core.'')]\<rparr>)"
    by (simp add: OnStart_switch_absent assms(1) GetLowestSetBitMask_10)
  have "''Configured the game to use 1 CPU core.''
      = ''Configured the game to use '' @ ''1 CPU core'' @ ''.''"
    by simp
  then have "sublist ''1 CPU core'' ''Configured the game to use 1 CPU core.''"
    by (simp only: sublist_appendI)
  with run show ?thesis by blast
qed

theorem OnStart_end_to_end_witness:
  "IsSwitchPresent host_plain ''CPUCount'' True = None
    \<and> GetProcessAffinityMask host_plain = Inr (10, 10)
    \<and> SetProcessAffinityMask host_plain 2 = None
    \<and> LogSinkAccepts host_plain
    \<and> OnStart host_plain st0 =
        (Inr True,
         \<lparr>calls = [CallIsSwitchPresent ''CPUCount'' True,
              CallGetProcessAffinityMask, CallSetProcessAffinityMask 2],
          logged = [(Info, ''Configured the game to use 1 CPU core.'')]\<rparr>)"
proof -
  have h: "IsSwitchPresent host_plain ''CPUCount'' True = None"
    "GetProcessAffinityMask host_plain = Inr (10, 10)"
    "SetProcessAffinityMask host_plain 2 = None"
    "LogSinkAccepts host_plain"
    by (simp_all add: host_plain_def LogSinkAccepts_def)
  from h OnStart_end_to_end [OF h, of st0] show ?thesis
    by (simp add: st0_def)
qed

text \<open>
  C8. The handler of \<open>ConfigureForSingleCPU\<close> catches \<open>wil::ResultException\<close> only. When
  the \<open>try\<close> block ends with an exception of another class, \<open>ConfigureForSingleCPU\<close> ends
  with that exception, in the state the block left (no Error line is written), and so does
  the startup hook that called it. When the block ends with a \<open>wil::ResultException\<close>, the
  handler runs and writes the Error line.
\<close>

theorem ConfigureForSingleCPU_other_exception_propagates:
  shows "(fst (ConfigureForSingleCPU_try env s1) = Inl (OtherException w) \<longrightarrow>
            ConfigureForSingleCPU env s1 = ConfigureForSingleCPU_try env s1
          \<and> (IsSwitchPresent env ''CPUCount'' True = None
               \<and> s1 = s\<lparr>calls := calls s @ [CallIsSwitchPresent ''CPUCount'' True]\<rparr> \<longrightarrow>
             OnStart env s =
               (Inl (OtherException w), snd (ConfigureForSingleCPU_try env s1))))
    \<and> (fst (ConfigureForSingleCPU_try env s1) = Inl (ResultException d) \<longrightarrow>
          ConfigureForSingleCPU env s1 =
            WriteLine env Error
              (''An OS error occurred when configuring the game to use 1 CPU: '' @ d @ ''.'')
              (snd (ConfigureForSingleCPU_try env s1)))"
proof -
  have other: "ConfigureForSingleCPU env s1 = ConfigureForSingleCPU_try env s1"
    if "fst (ConfigureForSingleCPU_try env s1) = Inl (OtherException w)"
    using that by (cases "ConfigureForSingleCPU_try env s1") (simp add: ConfigureForSingleCPU_def)
  have hook: "OnStart env s = (Inl (OtherException w), snd (ConfigureForSingleCPU_try env s1))"
    if "fst (ConfigureForSingleCPU_try env s1) = Inl (OtherException w)"
      and "IsSwitchPresent env ''CPUCount'' True = None"
      and "s1 = s\<lparr>calls := calls s @ [CallIsSwitchPresent ''CPUCount'' True]\<rparr>"
    using that other [OF that(1)]
    by (cases "ConfigureForSingleCPU_try env s1") (simp add: OnStart_switch_absent)
  have caught: "ConfigureForSingleCPU env s1 =
      WriteLine env Error
        (''An OS error occurred when configuring the game to use 1 CPU: '' @ d @ ''.'')
        (snd (ConfigureForSingleCPU_try env s1))"
    if "fst (ConfigureForSingleCPU_try env s1) = Inl (ResultException d)"
    using that
    by (cases "ConfigureForSingleCPU_try env s1")
       (simp add: ConfigureForSingleCPU_def WriteLineFormatted_def)
  from other hook caught show ?thesis by blast
qed

theorem ConfigureForSingleCPU_other_exception_propagates_witness:
  "fst (ConfigureForSingleCPU_try host_sink_raises
          \<lparr>calls = [CallIsSwitchPresent ''CPUCount'' True], logged = []\<rparr>)
      = Inl (OtherException ''bad allocation'')
    \<and> IsSwitchPresent host_sink_raises ''CPUCount'' True = None
    \<and> OnStart host_sink_raises st0 =
        (Inl (OtherException ''bad allocation''),
         \<lparr>calls = [CallIsSwitchPresent ''CPUCount'' True, CallGetProcessAffinityMask,
              CallSetProcessAffinityMask 2],
          logged = []\<rparr>)
    \<and> fst (ConfigureForSingleCPU_try host_query_fails st0)
        = Inl (ResultException ''Access is denied'')
    \<and> ConfigureForSingleCPU host_query_fails st0 =
        (Inr (),
         \<lparr>calls = [CallGetProcessAffinityMask],
          logged = [(Error,
            ''An OS error occurred when configuring the game to use 1 CPU: Access is denied.'')]\<rparr>)"
proof -
  let ?s1 = "\<lparr>calls = [CallIsSwitchPresent ''CPUCount'' True], logged = []\<rparr> :: 32 word state"
  have t: "ConfigureForSingleCPU_try host_sink_raises ?s1 =
      (Inl (OtherException ''bad allocation''),
       \<lparr>calls = [CallIsSwitchPresent ''CPUCount'' True, CallGetProcessAffinityMask,
            CallSetProcessAffinityMask 2],
        logged = []\<rparr>)"
    by (simp add: ConfigureForSingleCPU_try_def host_sink_raises_def host_plain_def
        WriteLine_def GetLowestSetBitMask_10)
  have n: "IsSwitchPresent host_sink_raises ''CPUCount'' True = None"
    by (simp add: host_sink_raises_def host_plain_def)
  have q: "ConfigureForSingleCPU_try host_query_fails st0 =
      (Inl (ResultException ''Access is denied''), \<lparr>calls = [CallGetProcessAffinityMask], logged = []\<rparr>)"
    by (simp add: ConfigureForSingleCPU_try_def host_query_fails_def host_plain_def st0_def)
  have e: "LogSink host_query_fails Error
      ''An OS error occurred when configuring the game to use 1 CPU: Access is denied.'' = None"
    by (simp add: host_query_fails_def host_plain_def)
  show ?thesis
    using t n q e
      ConfigureForSingleCPU_other_exception_propagates
        [of host_sink_raises ?s1 "''bad allocation''" st0 "''''"]
      ConfigureForSingleCPU_other_exception_propagates
        [of host_query_fails st0 "''''" st0 "''Access is denied''"]
    by (simp add: st0_def WriteLine_def)
qed

text \<open>
  C9. At the zero mask the selection returns zero. So when the query reports the system
  mask zero, \<open>ConfigureForSingleCPU\<close> does not detect it and calls
  \<open>SetProcessAffinityMask\<close> with the mask zero.
\<close>

theorem ConfigureForSingleCPU_zero_mask:
  fixes env :: "('w::len) word env"
  shows "GetLowestSetBitMask (0 :: 'w word) = 0
    \<and> (GetProcessAffinityMask env = Inr (pm, 0) \<longrightarrow>
          calls (snd (ConfigureForSingleCPU env s)) =
            calls s @ [CallGetProcessAffinityMask, CallSetProcessAffinityMask 0])"
proof -
  have "calls (snd (ConfigureForSingleCPU env s)) =
      calls s @ [CallGetProcessAffinityMask, CallSetProcessAffinityMask 0]"
    if "GetProcessAffinityMask env = Inr (pm, 0)"
    using ConfigureForSingleCPU_calls_queried [OF that, of s]
    by (simp add: GetLowestSetBitMask_zero)
  then show ?thesis
    by (simp add: GetLowestSetBitMask_zero)
qed

theorem ConfigureForSingleCPU_zero_mask_witness:
  "GetProcessAffinityMask host_zero_mask = Inr (0, 0)
    \<and> calls (snd (ConfigureForSingleCPU host_zero_mask st0)) =
        [CallGetProcessAffinityMask, CallSetProcessAffinityMask 0]"
proof -
  have q: "GetProcessAffinityMask host_zero_mask = Inr (0, 0)"
    by (simp add: host_zero_mask_def host_plain_def)
  from q ConfigureForSingleCPU_zero_mask [of host_zero_mask 0 st0] show ?thesis
    by (simp add: st0_def)
qed

end
